theory Spec2Isabelle
  imports Complex_Main "HOL-Library.Sublist"
begin

section \<open>JavaScript values as the adapters see them\<close>

text \<open>
  \<^verbatim>\<open>response.json()\<close> is typed \<^verbatim>\<open>any\<close>: the adapter reads whatever the
  provider sent. A value is one of the JSON shapes, or \<^verbatim>\<open>undefined\<close> (what reading an
  absent property gives). Numbers are only ever compared with zero or copied, so they are
  kept as rationals.
\<close>

type_synonym number = rat

datatype js =
    JUndefined
  | JNull
  | JBool bool
  | JNum number
  | JStr string
  | JArr "js list"
  | JObj "(string \<times> js) list"

text \<open>\<^verbatim>\<open>!v\<close> is \<open>\<not> truthy v\<close>.\<close>

fun truthy :: "js \<Rightarrow> bool" where
  "truthy JUndefined = False"
| "truthy JNull = False"
| "truthy (JBool b) = b"
| "truthy (JNum n) = (n \<noteq> 0)"
| "truthy (JStr s) = (s \<noteq> [])"
| "truthy (JArr xs) = True"
| "truthy (JObj fs) = True"

text \<open>The left operand of \<^verbatim>\<open>??\<close> is given up exactly when it is nullish.\<close>

fun nullish :: "js \<Rightarrow> bool" where
  "nullish JUndefined = True"
| "nullish JNull = True"
| "nullish v = False"

text \<open>Decimal rendering of a non-negative integer, as a template literal prints it.\<close>

definition digit_char :: "nat \<Rightarrow> char" where
  "digit_char d = ''0123456789'' ! d"

function string_of_nat :: "nat \<Rightarrow> string" where
  "string_of_nat n =
     (if n < 10 then [digit_char n]
      else string_of_nat (n div 10) @ [digit_char (n mod 10)])"
  by pat_completeness auto
termination
  by (relation "measure (\<lambda>n. n)") auto

declare string_of_nat.simps [simp del]

section \<open>The HTTP boundary\<close>

text \<open>An abort signal is an opaque handle that the adapter only passes on.\<close>

type_synonym AbortSignal = nat

text \<open>
  What the adapter reads of a \<^verbatim>\<open>Response\<close>: the \<^verbatim>\<open>ok\<close> flag, the numeric status and
  the parsed body; \<open>json = None\<close> is a body that \<^verbatim>\<open>response.json()\<close> rejects.
\<close>

record Response =
  ok :: bool
  status :: nat
  json :: "js option"

text \<open>
  What can be thrown. \<^verbatim>\<open>new Error(msg)\<close> is \<open>Error msg None\<close>; the adapter may attach
  the response to it afterwards (\<^verbatim>\<open>error.response = response\<close>), giving
  \<open>Error msg (Some response)\<close>. The other constructors are the engine's own exceptions.
\<close>

datatype js_error =
    Error (message: string) (response: "Response option")
  | TypeError
  | SyntaxError
  | AbortError

datatype fetch_outcome = Rejected js_error | Resolved Response

text \<open>
  Property reads. Reading a property of \<^verbatim>\<open>undefined\<close> or \<^verbatim>\<open>null\<close> throws a
  \<^verbatim>\<open>TypeError\<close>; on every other value an absent property reads as \<^verbatim>\<open>undefined\<close>.
  Arrays and strings carry \<^verbatim>\<open>length\<close>. The adapters read only the names
  \<^verbatim>\<open>completions\<close>, \<^verbatim>\<open>length\<close>, \<^verbatim>\<open>data\<close> and \<^verbatim>\<open>text\<close>, none of which a
  built-in prototype defines.
\<close>

fun get_property :: "js \<Rightarrow> string \<Rightarrow> js_error + js" where
  "get_property JUndefined k = Inl TypeError"
| "get_property JNull k = Inl TypeError"
| "get_property (JBool b) k = Inr JUndefined"
| "get_property (JNum n) k = Inr JUndefined"
| "get_property (JStr s) k =
     Inr (if k = ''length'' then JNum (of_nat (length s)) else JUndefined)"
| "get_property (JArr xs) k =
     Inr (if k = ''length'' then JNum (of_nat (length xs)) else JUndefined)"
| "get_property (JObj fs) k =
     Inr (case map_of fs k of None \<Rightarrow> JUndefined | Some v \<Rightarrow> v)"

text \<open>Indexed reads \<^verbatim>\<open>v[i]\<close>; out of range is \<^verbatim>\<open>undefined\<close>, never an exception.\<close>

fun get_element :: "js \<Rightarrow> nat \<Rightarrow> js_error + js" where
  "get_element JUndefined i = Inl TypeError"
| "get_element JNull i = Inl TypeError"
| "get_element (JBool b) i = Inr JUndefined"
| "get_element (JNum n) i = Inr JUndefined"
| "get_element (JStr s) i = Inr (if i < length s then JStr [s ! i] else JUndefined)"
| "get_element (JArr xs) i = Inr (if i < length xs then xs ! i else JUndefined)"
| "get_element (JObj fs) i =
     Inr (case map_of fs (string_of_nat i) of None \<Rightarrow> JUndefined | Some v \<Rightarrow> v)"

section \<open>AI21: data\<close>

record AI21PenaltyData =
  scale :: number
  applyToWhitespaces :: bool
  applyToPunctuations :: bool
  applyToNumbers :: bool
  applyToStopwords :: bool
  applyToEmojis :: bool

text \<open>
  \<^verbatim>\<open>AI21Input\<close>: every field optional. The inherited \<^verbatim>\<open>BaseLLMParams\<close> (callbacks,
  retry settings) are consumed by the base class and play no part below.
\<close>

record AI21Input =
  ai21ApiKey :: "string option"
  model :: "string option"
  temperature :: "number option"
  minTokens :: "number option"
  maxTokens :: "number option"
  topP :: "number option"
  presencePenalty :: "AI21PenaltyData option"
  countPenalty :: "AI21PenaltyData option"
  frequencyPenalty :: "AI21PenaltyData option"
  numResults :: "number option"
  logitBias :: "(string \<times> number) list option"
  stop :: "string list option"
  baseUrl :: "string option"

text \<open>The object returned by the \<^verbatim>\<open>defaultParams\<close> getter.\<close>

record AI21Params =
  temperature :: number
  maxTokens :: number
  minTokens :: number
  topP :: number
  presencePenalty :: AI21PenaltyData
  countPenalty :: AI21PenaltyData
  frequencyPenalty :: AI21PenaltyData
  numResults :: number
  logitBias :: "(string \<times> number) list option"

text \<open>
  The request body \<^verbatim>\<open>{ prompt, stopSequences: stop, ...this.defaultParams }\<close>, kept
  structured rather than serialised.
\<close>

record AI21Body =
  prompt :: string
  stopSequences :: "string list"
  temperature :: number
  maxTokens :: number
  minTokens :: number
  topP :: number
  presencePenalty :: AI21PenaltyData
  countPenalty :: AI21PenaltyData
  frequencyPenalty :: AI21PenaltyData
  numResults :: number
  logitBias :: "(string \<times> number) list option"

record Request =
  url :: string
  "method" :: string
  headers :: "(string \<times> string) list"
  body :: AI21Body
  signal :: "AbortSignal option"

record ParsedCallOptions =
  stop :: "string list option"
  signal :: "AbortSignal option"

text \<open>The instance fields of class \<^verbatim>\<open>AI21\<close>, in declaration order.\<close>

record AI21 =
  model :: string
  temperature :: number
  maxTokens :: number
  minTokens :: number
  topP :: number
  presencePenalty :: AI21PenaltyData
  countPenalty :: AI21PenaltyData
  frequencyPenalty :: AI21PenaltyData
  numResults :: number
  logitBias :: "(string \<times> number) list option"
  ai21ApiKey :: "string option"
  stop :: "string list option"
  baseUrl :: "string option"

section \<open>Optional values\<close>

text \<open>
  An optional field is an \<open>option\<close>, \<open>None\<close> being \<^verbatim>\<open>undefined\<close>.
  \<open>optional_chain flds f\<close> is \<^verbatim>\<open>fields?.f\<close>, \<open>coalesce x d\<close> is \<^verbatim>\<open>x ?? d\<close> with a
  defined right operand, and \<open>coalesce_opt x y\<close> is \<^verbatim>\<open>x ?? y\<close> where \<^verbatim>\<open>y\<close> may itself be
  \<^verbatim>\<open>undefined\<close>. \<open>falsy_string\<close> is \<^verbatim>\<open>!s\<close> on an optional string: \<^verbatim>\<open>undefined\<close> and the
  empty string are falsy.
\<close>

definition optional_chain :: "'a option \<Rightarrow> ('a \<Rightarrow> 'b option) \<Rightarrow> 'b option" where
  "optional_chain flds f = (case flds of None \<Rightarrow> None | Some r \<Rightarrow> f r)"

definition coalesce :: "'a option \<Rightarrow> 'a \<Rightarrow> 'a" where
  "coalesce x d = (case x of None \<Rightarrow> d | Some v \<Rightarrow> v)"

definition coalesce_opt :: "'a option \<Rightarrow> 'a option \<Rightarrow> 'a option" where
  "coalesce_opt x y = (case x of None \<Rightarrow> y | Some v \<Rightarrow> Some v)"

definition falsy_string :: "string option \<Rightarrow> bool" where
  "falsy_string s = (case s of None \<Rightarrow> True | Some v \<Rightarrow> v = [])"

section \<open>AI21: operations\<close>

definition getDefaultAI21PenaltyData :: AI21PenaltyData where
  "getDefaultAI21PenaltyData =
     \<lparr>scale = 0,
      applyToWhitespaces = True,
      applyToPunctuations = True,
      applyToNumbers = True,
      applyToStopwords = True,
      applyToEmojis = True\<rparr>"

text \<open>The class's field initialisers, which run before the constructor body.\<close>

definition AI21_initializers :: AI21 where
  "AI21_initializers =
     \<lparr>AI21.model = ''j2-jumbo-instruct'',
      AI21.temperature = 7 / 10,
      AI21.maxTokens = 1024,
      AI21.minTokens = 0,
      AI21.topP = 1,
      AI21.presencePenalty = getDefaultAI21PenaltyData,
      AI21.countPenalty = getDefaultAI21PenaltyData,
      AI21.frequencyPenalty = getDefaultAI21PenaltyData,
      AI21.numResults = 1,
      AI21.logitBias = None,
      AI21.ai21ApiKey = None,
      AI21.stop = None,
      AI21.baseUrl = None\<rparr>"

text \<open>
  The constructor. \<open>env\<close> is what \<^verbatim>\<open>getEnvironmentVariable("AI21_API_KEY")\<close> returns
  (the function lives outside these sources). The result is the instance or the error
  thrown, paired with the number of outbound calls made while constructing.
\<close>

definition AI21_constructor ::
  "AI21Input option \<Rightarrow> string option \<Rightarrow> (js_error + AI21) \<times> nat" where
  "AI21_constructor flds env =
     (let this = AI21_initializers;
          this = this\<lparr>AI21.model :=
            coalesce (optional_chain flds AI21Input.model) (AI21.model this)\<rparr>;
          this = this\<lparr>AI21.temperature :=
            coalesce (optional_chain flds AI21Input.temperature) (AI21.temperature this)\<rparr>;
          this = this\<lparr>AI21.maxTokens :=
            coalesce (optional_chain flds AI21Input.maxTokens) (AI21.maxTokens this)\<rparr>;
          this = this\<lparr>AI21.minTokens :=
            coalesce (optional_chain flds AI21Input.minTokens) (AI21.minTokens this)\<rparr>;
          this = this\<lparr>AI21.topP :=
            coalesce (optional_chain flds AI21Input.topP) (AI21.topP this)\<rparr>;
          this = this\<lparr>AI21.presencePenalty :=
            coalesce (optional_chain flds AI21Input.presencePenalty)
              (AI21.presencePenalty this)\<rparr>;
          this = this\<lparr>AI21.countPenalty :=
            coalesce (optional_chain flds AI21Input.countPenalty)
              (AI21.countPenalty this)\<rparr>;
          this = this\<lparr>AI21.frequencyPenalty :=
            coalesce (optional_chain flds AI21Input.frequencyPenalty)
              (AI21.frequencyPenalty this)\<rparr>;
          this = this\<lparr>AI21.numResults :=
            coalesce (optional_chain flds AI21Input.numResults) (AI21.numResults this)\<rparr>;
          this = this\<lparr>AI21.logitBias := optional_chain flds AI21Input.logitBias\<rparr>;
          this = this\<lparr>AI21.ai21ApiKey :=
            coalesce_opt (optional_chain flds AI21Input.ai21ApiKey) env\<rparr>;
          this = this\<lparr>AI21.stop := optional_chain flds AI21Input.stop\<rparr>;
          this = this\<lparr>AI21.baseUrl := optional_chain flds AI21Input.baseUrl\<rparr>
      in (Inr this, 0))"

definition no_api_key_message :: string where
  \<open>no_api_key_message =
     ''No AI21 API key found. Please set it as "AI21_API_KEY" in your environment variables.''\<close>

definition validateEnvironment :: "AI21 \<Rightarrow> js_error + unit" where
  "validateEnvironment this =
     (if falsy_string (AI21.ai21ApiKey this) then Inl (Error no_api_key_message None)
      else Inr ())"

definition defaultParams :: "AI21 \<Rightarrow> AI21Params" where
  "defaultParams this =
     \<lparr>AI21Params.temperature = AI21.temperature this,
      AI21Params.maxTokens = AI21.maxTokens this,
      AI21Params.minTokens = AI21.minTokens this,
      AI21Params.topP = AI21.topP this,
      AI21Params.presencePenalty = AI21.presencePenalty this,
      AI21Params.countPenalty = AI21.countPenalty this,
      AI21Params.frequencyPenalty = AI21.frequencyPenalty this,
      AI21Params.numResults = AI21.numResults this,
      AI21Params.logitBias = AI21.logitBias this\<rparr>"

text \<open>
  Modelled from the spec: the shared caller (\<^verbatim>\<open>util/async_caller.js\<close>, reached through
  \<^verbatim>\<open>this.caller\<close>) is not among the sources. The spec describes it as a single
  pass-through with no backoff policy: it runs the function it is given once and hands
  its outcome back unchanged.
\<close>

definition callWithOptions :: "unit \<Rightarrow> (unit \<Rightarrow> 'a) \<Rightarrow> 'a" where
  "callWithOptions opts f = f ()"

text \<open>
  Lines 155-157 of \<^verbatim>\<open>_call\<close>: both stop lists present and both non-empty.
\<close>

definition stop_conflict :: "string list option \<Rightarrow> string list option \<Rightarrow> bool" where
  "stop_conflict this_stop call_stop =
     (case this_stop of None \<Rightarrow> False
      | Some a \<Rightarrow> (case call_stop of None \<Rightarrow> False
                   | Some b \<Rightarrow> length a > 0 \<and> length b > 0))"

definition stop_conflict_message :: string where
  \<open>stop_conflict_message = ''`stop` found in both the input and default params.''\<close>

text \<open>
  Lines 160-163. The conditional operator binds looser than \<^verbatim>\<open>??\<close>, and \<^verbatim>\<open>===\<close>
  tighter, so the expression is
  \<^verbatim>\<open>(this.baseUrl ?? (this.model === "j1-grande-instruct")) ? experimental : standard\<close>:
  the condition is the truthiness of the configured base URL when there is one, and the
  model comparison otherwise.
\<close>

definition select_baseUrl :: "AI21 \<Rightarrow> string" where
  "select_baseUrl this =
     (if (case AI21.baseUrl this of
            Some b \<Rightarrow> b \<noteq> []
          | None \<Rightarrow> AI21.model this = ''j1-grande-instruct'')
      then ''https://api.ai21.com/studio/v1/experimental''
      else ''https://api.ai21.com/studio/v1'')"

text \<open>
  Lines 158-177: the merged stop list, the URL, the headers and the body of the one
  request. A template literal prints an absent key as \<^verbatim>\<open>undefined\<close>.
\<close>

definition build_request :: "AI21 \<Rightarrow> string \<Rightarrow> ParsedCallOptions \<Rightarrow> Request" where
  "build_request this prompt' options =
     (let stop' = coalesce (coalesce_opt (AI21.stop this) (ParsedCallOptions.stop options)) [];
          baseUrl = select_baseUrl this;
          url = baseUrl @ ''/'' @ AI21.model this @ ''/complete'';
          headers =
            [(''Authorization'', ''Bearer '' @ coalesce (AI21.ai21ApiKey this) ''undefined''),
             (''Content-Type'', ''application/json'')];
          params = defaultParams this;
          data =
            \<lparr>AI21Body.prompt = prompt',
             AI21Body.stopSequences = stop',
             AI21Body.temperature = AI21Params.temperature params,
             AI21Body.maxTokens = AI21Params.maxTokens params,
             AI21Body.minTokens = AI21Params.minTokens params,
             AI21Body.topP = AI21Params.topP params,
             AI21Body.presencePenalty = AI21Params.presencePenalty params,
             AI21Body.countPenalty = AI21Params.countPenalty params,
             AI21Body.frequencyPenalty = AI21Params.frequencyPenalty params,
             AI21Body.numResults = AI21Params.numResults params,
             AI21Body.logitBias = AI21Params.logitBias params\<rparr>
      in \<lparr>Request.url = url,
          Request.method = ''POST'',
          Request.headers = headers,
          Request.body = data,
          Request.signal = ParsedCallOptions.signal options\<rparr>)"

text \<open>Lines 172-186: the function handed to the caller.\<close>

definition fetch_json :: "(Request \<Rightarrow> fetch_outcome) \<Rightarrow> Request \<Rightarrow> js_error + js" where
  "fetch_json fetch request =
     (case fetch request of
        Rejected e \<Rightarrow> Inl e
      | Resolved resp \<Rightarrow>
          if \<not> ok resp
          then Inl (Error (''AI21 call failed with status code '' @
                            string_of_nat (status resp)) (Some resp))
          else (case json resp of None \<Rightarrow> Inl SyntaxError | Some v \<Rightarrow> Inr v))"

definition no_completions_message :: string where
  "no_completions_message = ''No completions found in response''"

text \<open>Lines 189-197: the checks on the parsed body and the value returned.\<close>

definition read_completion :: "js \<Rightarrow> js_error + js" where
  "read_completion responseData =
     (case get_property responseData ''completions'' of
        Inl e \<Rightarrow> Inl e
      | Inr completions \<Rightarrow>
          if \<not> truthy completions then Inl (Error no_completions_message None)
          else (case get_property completions ''length'' of
             Inl e \<Rightarrow> Inl e
           | Inr len \<Rightarrow>
               if len = JNum 0 then Inl (Error no_completions_message None)
               else (case get_element completions 0 of
                  Inl e \<Rightarrow> Inl e
                | Inr first \<Rightarrow>
                    (case get_property first ''data'' of
                       Inl e \<Rightarrow> Inl e
                     | Inr d \<Rightarrow>
                         if \<not> truthy d then Inl (Error no_completions_message None)
                         else (case get_property d ''text'' of
                            Inl e \<Rightarrow> Inl e
                          | Inr t \<Rightarrow> Inr (if nullish t then JStr [] else t))))))"

text \<open>
  \<^verbatim>\<open>_call\<close>. \<open>fetch\<close> is the network: what each request would be answered with. The
  result is what the call settles with, the instance as the call leaves it, and the
  requests sent, in order.
\<close>

definition AI21_call ::
  "string \<Rightarrow> ParsedCallOptions \<Rightarrow> (Request \<Rightarrow> fetch_outcome) \<Rightarrow> AI21
     \<Rightarrow> (js_error + js) \<times> AI21 \<times> Request list" where
  "AI21_call prompt' options fetch this =
     (case validateEnvironment this of
        Inl e \<Rightarrow> (Inl e, this, [])
      | Inr u \<Rightarrow>
          if stop_conflict (AI21.stop this) (ParsedCallOptions.stop options)
          then (Inl (Error stop_conflict_message None), this, [])
          else
            (let request = build_request this prompt' options
             in (case callWithOptions () (\<lambda>u. fetch_json fetch request) of
                   Inl e \<Rightarrow> (Inl e, this, [request])
                 | Inr responseData \<Rightarrow> (read_completion responseData, this, [request]))))"

section \<open>OpenAIModerationChain\<close>

text \<open>
  \<^verbatim>\<open>ClientOptions\<close> belongs to the provider's SDK; here it is an object read as a map from
  property names to values. A moderation verdict carries the flag and the category
  detail.
\<close>

type_synonym ClientOptions = "string \<rightharpoonup> js"

record Moderation =
  flagged :: bool
  categories :: "(string \<times> bool) list"
  category_scores :: "(string \<times> number) list"

record OpenAIModerationChainInput =
  openAIApiKey :: "string option"
  openAIOrganization :: "string option"
  throwError :: "bool option"
  configuration :: "ClientOptions option"

text \<open>
  The instance. \<^verbatim>\<open>client\<close> and \<^verbatim>\<open>caller\<close> are objects of the SDK and of the shared
  caller, built from the fields below without any I/O.
\<close>

record OpenAIModerationChain =
  inputKey :: string
  outputKey :: string
  openAIApiKey :: "string option"
  openAIOrganization :: "string option"
  clientConfig :: ClientOptions
  throwError :: bool

definition api_key_not_found_message :: string where
  "api_key_not_found_message = ''OpenAI API key not found''"

text \<open>
  The constructor; \<open>env\<close> is what \<^verbatim>\<open>getEnvironmentVariable("OPENAI_API_KEY")\<close> returns.
  As for \<open>AI21_constructor\<close>, the second component counts outbound calls.
\<close>

definition OpenAIModerationChain_constructor ::
  "OpenAIModerationChainInput option \<Rightarrow> string option
     \<Rightarrow> (js_error + OpenAIModerationChain) \<times> nat" where
  "OpenAIModerationChain_constructor flds env =
     (let throwError' = coalesce (optional_chain flds OpenAIModerationChainInput.throwError) False;
          openAIApiKey' =
            coalesce_opt (optional_chain flds OpenAIModerationChainInput.openAIApiKey) env
      in if falsy_string openAIApiKey'
         then (Inl (Error api_key_not_found_message None), 0)
         else
           (let openAIOrganization' =
                  optional_chain flds OpenAIModerationChainInput.openAIOrganization;
                spread = coalesce (optional_chain flds configuration) Map.empty;
                clientConfig' =
                  spread
                  ++ [''apiKey'' \<mapsto> (case openAIApiKey' of None \<Rightarrow> JUndefined | Some k \<Rightarrow> JStr k),
                      ''organization'' \<mapsto>
                        (case openAIOrganization' of None \<Rightarrow> JUndefined | Some g \<Rightarrow> JStr g)]
                  ++ spread
            in (Inr \<lparr>inputKey = ''input'',
                     outputKey = ''output'',
                     openAIApiKey = openAIApiKey',
                     openAIOrganization = openAIOrganization',
                     clientConfig = clientConfig',
                     throwError = throwError'\<rparr>, 0)))"

definition errorStr :: string where
  "errorStr = ''Text was found that violates OpenAI's content policy.''"

text \<open>\<^verbatim>\<open>_moderate\<close>: the text to hand on, or the error thrown.\<close>

definition moderate :: "OpenAIModerationChain \<Rightarrow> string \<Rightarrow> Moderation \<Rightarrow> js_error + string" where
  "moderate this text' results =
     (if flagged results
      then (if throwError this then Inl (Error errorStr None) else Inr errorStr)
      else Inr text')"

section \<open>Sample inputs\<close>

text \<open>
  The input object \<^verbatim>\<open>{}\<close>, a network that answers every request with status 200 and a
  given body, and one that answers with a given failing status.
\<close>

definition AI21Input_empty :: AI21Input where
  "AI21Input_empty =
     \<lparr>AI21Input.ai21ApiKey = None, AI21Input.model = None, AI21Input.temperature = None,
      AI21Input.minTokens = None, AI21Input.maxTokens = None, AI21Input.topP = None,
      AI21Input.presencePenalty = None, AI21Input.countPenalty = None,
      AI21Input.frequencyPenalty = None, AI21Input.numResults = None,
      AI21Input.logitBias = None, AI21Input.stop = None, AI21Input.baseUrl = None\<rparr>"

definition reply :: "js \<Rightarrow> Request \<Rightarrow> fetch_outcome" where
  "reply v request = Resolved \<lparr>ok = True, status = 200, json = Some v\<rparr>"

definition reply_status :: "nat \<Rightarrow> Request \<Rightarrow> fetch_outcome" where
  "reply_status n request = Resolved \<lparr>ok = False, status = n, json = None\<rparr>"

section \<open>Basic facts\<close>

subsection \<open>What the constructor leaves in each field\<close>

lemma AI21_constructor_eq:
  "AI21_constructor flds env =
     (Inr \<lparr>AI21.model = coalesce (optional_chain flds AI21Input.model) ''j2-jumbo-instruct'',
           AI21.temperature = coalesce (optional_chain flds AI21Input.temperature) (7 / 10),
           AI21.maxTokens = coalesce (optional_chain flds AI21Input.maxTokens) 1024,
           AI21.minTokens = coalesce (optional_chain flds AI21Input.minTokens) 0,
           AI21.topP = coalesce (optional_chain flds AI21Input.topP) 1,
           AI21.presencePenalty =
             coalesce (optional_chain flds AI21Input.presencePenalty) getDefaultAI21PenaltyData,
           AI21.countPenalty =
             coalesce (optional_chain flds AI21Input.countPenalty) getDefaultAI21PenaltyData,
           AI21.frequencyPenalty =
             coalesce (optional_chain flds AI21Input.frequencyPenalty) getDefaultAI21PenaltyData,
           AI21.numResults = coalesce (optional_chain flds AI21Input.numResults) 1,
           AI21.logitBias = optional_chain flds AI21Input.logitBias,
           AI21.ai21ApiKey = coalesce_opt (optional_chain flds AI21Input.ai21ApiKey) env,
           AI21.stop = optional_chain flds AI21Input.stop,
           AI21.baseUrl = optional_chain flds AI21Input.baseUrl\<rparr>, 0)"
  by (simp add: AI21_constructor_def AI21_initializers_def Let_def)

lemma constructor_empty_stop_fields:
  "AI21_constructor (Some (AI21Input_empty\<lparr>AI21Input.stop := Some s\<rparr>)) None
     = (Inr (AI21_initializers\<lparr>AI21.stop := Some s\<rparr>), 0)"
  unfolding AI21_constructor_eq
  by (simp add: AI21Input_empty_def AI21_initializers_def optional_chain_def coalesce_def
      coalesce_opt_def)

subsection \<open>Decimal rendering\<close>

lemma string_of_nat_500: "string_of_nat 500 = ''500''"
  by (simp add: string_of_nat.simps digit_char_def)

subsection \<open>The three ways a call can go\<close>

text \<open>
  A call stops at the key check, stops at the stop-list check, or sends its one request
  and settles with what the response gives.
\<close>

lemma call_no_key:
  "falsy_string (AI21.ai21ApiKey this) \<Longrightarrow>
   AI21_call prompt' options fetch this = (Inl (Error no_api_key_message None), this, [])"
  by (simp add: AI21_call_def validateEnvironment_def)

lemma call_conflict:
  "\<not> falsy_string (AI21.ai21ApiKey this) \<Longrightarrow>
   stop_conflict (AI21.stop this) (ParsedCallOptions.stop options) \<Longrightarrow>
   AI21_call prompt' options fetch this = (Inl (Error stop_conflict_message None), this, [])"
  by (simp add: AI21_call_def validateEnvironment_def)

lemma call_sent:
  "\<not> falsy_string (AI21.ai21ApiKey this) \<Longrightarrow>
   \<not> stop_conflict (AI21.stop this) (ParsedCallOptions.stop options) \<Longrightarrow>
   AI21_call prompt' options fetch this =
     (case fetch_json fetch (build_request this prompt' options) of
        Inl e \<Rightarrow> Inl e
      | Inr responseData \<Rightarrow> read_completion responseData,
      this, [build_request this prompt' options])"
  by (simp add: AI21_call_def validateEnvironment_def callWithOptions_def Let_def split: sum.splits)

lemma call_one_request:
  assumes "snd (snd (AI21_call prompt' options fetch this)) = [request]"
  shows "request = build_request this prompt' options"
    and "fst (AI21_call prompt' options fetch this) =
          (case fetch_json fetch request of
             Inl e \<Rightarrow> Inl e
           | Inr responseData \<Rightarrow> read_completion responseData)"
proof -
  have key: "\<not> falsy_string (AI21.ai21ApiKey this)"
    using assms by (auto simp: call_no_key)
  have noc: "\<not> stop_conflict (AI21.stop this) (ParsedCallOptions.stop options)"
    using assms key by (auto simp: call_conflict)
  show "request = build_request this prompt' options"
    using assms by (simp add: call_sent [OF key noc])
  then show "fst (AI21_call prompt' options fetch this) =
          (case fetch_json fetch request of
             Inl e \<Rightarrow> Inl e
           | Inr responseData \<Rightarrow> read_completion responseData)"
    by (simp add: call_sent [OF key noc])
qed

lemma keyed_call_sent:
  "snd (snd (AI21_call prompt'
       \<lparr>ParsedCallOptions.stop = None, ParsedCallOptions.signal = None\<rparr> fetch
       (AI21_initializers\<lparr>AI21.ai21ApiKey := Some ''key''\<rparr>)))
   = [build_request (AI21_initializers\<lparr>AI21.ai21ApiKey := Some ''key''\<rparr>) prompt'
        \<lparr>ParsedCallOptions.stop = None, ParsedCallOptions.signal = None\<rparr>]"
proof -
  let ?inst = "AI21_initializers\<lparr>AI21.ai21ApiKey := Some ''key''\<rparr>"
  let ?options = "\<lparr>ParsedCallOptions.stop = None, ParsedCallOptions.signal = None\<rparr>"
  have key: "\<not> falsy_string (AI21.ai21ApiKey ?inst)"
    by (simp add: falsy_string_def)
  have noc: "\<not> stop_conflict (AI21.stop ?inst) (ParsedCallOptions.stop ?options)"
    by (simp add: stop_conflict_def AI21_initializers_def)
  show ?thesis
    unfolding call_sent [OF key noc] by simp
qed

subsection \<open>The request\<close>

lemma merged_stop_static_absent:
  "AI21.stop this = None \<Longrightarrow> ParsedCallOptions.stop options = Some b \<Longrightarrow>
   AI21Body.stopSequences (Request.body (build_request this prompt' options)) = b"
  by (simp add: build_request_def Let_def coalesce_def coalesce_opt_def)

lemma merged_stop_static_present:
  "AI21.stop this = Some a \<Longrightarrow>
   AI21Body.stopSequences (Request.body (build_request this prompt' options)) = a"
  by (simp add: build_request_def Let_def coalesce_def coalesce_opt_def)

lemma select_baseUrl_default:
  "AI21.baseUrl this = None \<Longrightarrow>
   select_baseUrl this =
     (if AI21.model this = ''j1-grande-instruct''
      then ''https://api.ai21.com/studio/v1/experimental''
      else ''https://api.ai21.com/studio/v1'')"
  by (simp add: select_baseUrl_def)

lemma select_baseUrl_configured:
  "AI21.baseUrl this = Some b \<Longrightarrow>
   select_baseUrl this =
     (if b \<noteq> [] then ''https://api.ai21.com/studio/v1/experimental''
      else ''https://api.ai21.com/studio/v1'')"
  by (simp add: select_baseUrl_def)

lemma request_url:
  "Request.url (build_request this prompt' options)
     = select_baseUrl this @ ''/'' @ AI21.model this @ ''/complete''"
  by (simp add: build_request_def Let_def)

subsection \<open>Reading the response body\<close>

text \<open>A property read succeeds on every value except \<^verbatim>\<open>null\<close> and \<^verbatim>\<open>undefined\<close>.\<close>

lemma get_property_succeeds:
  "(\<exists>x. get_property v k = Inr x) \<longleftrightarrow> v \<noteq> JNull \<and> v \<noteq> JUndefined"
  by (cases v) simp_all

lemma read_completion_absent:
  "get_property responseData ''completions'' = Inr JUndefined \<Longrightarrow>
   read_completion responseData = Inl (Error no_completions_message None)"
  by (simp add: read_completion_def)

lemma read_completion_empty:
  "get_property responseData ''completions'' = Inr (JArr []) \<Longrightarrow>
   read_completion responseData = Inl (Error no_completions_message None)"
  by (simp add: read_completion_def)

lemma read_completion_no_data:
  "get_property responseData ''completions'' = Inr (JArr (first # rest)) \<Longrightarrow>
   get_property first ''data'' = Inr d \<Longrightarrow> \<not> truthy d \<Longrightarrow>
   read_completion responseData = Inl (Error no_completions_message None)"
  by (simp add: read_completion_def)

lemma read_completion_text:
  "get_property responseData ''completions'' = Inr (JArr (first # rest)) \<Longrightarrow>
   get_property first ''data'' = Inr d \<Longrightarrow> truthy d \<Longrightarrow>
   get_property d ''text'' = Inr t \<Longrightarrow>
   read_completion responseData = Inr (if nullish t then JStr [] else t)"
  by (simp add: read_completion_def)

lemma read_completion_null_element:
  "get_property responseData ''completions'' = Inr (JArr (JNull # rest)) \<Longrightarrow>
   read_completion responseData = Inl TypeError"
  by (simp add: read_completion_def)

lemma read_completion_null_body:
  "read_completion JNull = Inl TypeError"
  by (simp add: read_completion_def)

lemma keyed_call_result:
  "fst (AI21_call prompt'
       \<lparr>ParsedCallOptions.stop = None, ParsedCallOptions.signal = None\<rparr> (reply v)
       (AI21_initializers\<lparr>AI21.ai21ApiKey := Some ''key''\<rparr>))
   = read_completion v"
  by (simp add: call_one_request(2) [OF keyed_call_sent] fetch_json_def reply_def)

section \<open>Missing credentials\<close>

text \<open>
  The AI21 constructor stores whatever key it finds and never checks it: with no fields
  and no environment value it returns the instance the field initialisers describe.
\<close>

theorem ai21_constructs_without_key:
  "AI21_constructor None None = (Inr AI21_initializers, 0)"
  unfolding AI21_constructor_eq
  by (simp add: AI21_initializers_def optional_chain_def coalesce_def coalesce_opt_def)

text \<open>
  C1, as the code has it. With no explicit key and no environment value, constructing an
  \<^verbatim>\<open>OpenAIModerationChain\<close> fails with the key-not-found error and makes no outbound
  call. Constructing an \<^verbatim>\<open>AI21\<close> succeeds, also without an outbound call; the check sits
  in \<^verbatim>\<open>validateEnvironment\<close>, which \<^verbatim>\<open>_call\<close> runs first, so every call on that
  instance fails with the no-key error and sends nothing.
\<close>

theorem missing_credential:
  "(optional_chain flds AI21Input.ai21ApiKey = None \<and> env = None \<longrightarrow>
      (\<exists>this. AI21_constructor flds env = (Inr this, 0)
         \<and> (\<forall>prompt' options fetch.
               AI21_call prompt' options fetch this
                 = (Inl (Error no_api_key_message None), this, []))))
   \<and> (optional_chain cflds OpenAIModerationChainInput.openAIApiKey = None \<and> cenv = None \<longrightarrow>
        OpenAIModerationChain_constructor cflds cenv
          = (Inl (Error api_key_not_found_message None), 0))"
proof (intro conjI impI)
  assume a: "optional_chain flds AI21Input.ai21ApiKey = None \<and> env = None"
  obtain this where c: "AI21_constructor flds env = (Inr this, 0)"
    by (simp add: AI21_constructor_eq)
  have "AI21.ai21ApiKey this = None"
    using a c unfolding AI21_constructor_eq by (auto simp: coalesce_opt_def)
  then have "falsy_string (AI21.ai21ApiKey this)"
    by (simp add: falsy_string_def)
  then have "\<forall>prompt' options fetch.
      AI21_call prompt' options fetch this = (Inl (Error no_api_key_message None), this, [])"
    by (simp add: call_no_key)
  with c show "\<exists>this. AI21_constructor flds env = (Inr this, 0)
         \<and> (\<forall>prompt' options fetch.
               AI21_call prompt' options fetch this
                 = (Inl (Error no_api_key_message None), this, []))"
    by blast
next
  assume "optional_chain cflds OpenAIModerationChainInput.openAIApiKey = None \<and> cenv = None"
  then show "OpenAIModerationChain_constructor cflds cenv
          = (Inl (Error api_key_not_found_message None), 0)"
    by (simp add: OpenAIModerationChain_constructor_def Let_def coalesce_opt_def falsy_string_def)
qed

theorem missing_credential_witness:
  "optional_chain None AI21Input.ai21ApiKey = None
   \<and> optional_chain None OpenAIModerationChainInput.openAIApiKey = None
   \<and> (\<exists>this. AI21_constructor None None = (Inr this, 0)
         \<and> (\<forall>prompt' options fetch.
               AI21_call prompt' options fetch this
                 = (Inl (Error no_api_key_message None), this, [])))
   \<and> OpenAIModerationChain_constructor None None
        = (Inl (Error api_key_not_found_message None), 0)"
  using missing_credential [of None None None None] by (simp add: optional_chain_def)

section \<open>Stop sequences given twice\<close>

text \<open>
  On an instance without a key the key check comes first: a call with a non-empty stop
  list on both sides fails with the no-key error, not with the conflict error.
\<close>

theorem stop_conflict_masked_by_missing_key:
  "AI21_constructor (Some (AI21Input_empty\<lparr>AI21Input.stop := Some [''END'']\<rparr>)) None
     = (Inr (AI21_initializers\<lparr>AI21.stop := Some [''END'']\<rparr>), 0)
   \<and> AI21_call ''Tell me a joke.''
        \<lparr>ParsedCallOptions.stop = Some [''STOP''], ParsedCallOptions.signal = None\<rparr>
        (reply JNull) (AI21_initializers\<lparr>AI21.stop := Some [''END'']\<rparr>)
       = (Inl (Error no_api_key_message None), AI21_initializers\<lparr>AI21.stop := Some [''END'']\<rparr>, [])
   \<and> Error no_api_key_message None \<noteq> Error stop_conflict_message None"
proof (intro conjI)
  show "AI21_constructor (Some (AI21Input_empty\<lparr>AI21Input.stop := Some [''END'']\<rparr>)) None
     = (Inr (AI21_initializers\<lparr>AI21.stop := Some [''END'']\<rparr>), 0)"
    by (rule constructor_empty_stop_fields)
  show "AI21_call ''Tell me a joke.''
        \<lparr>ParsedCallOptions.stop = Some [''STOP''], ParsedCallOptions.signal = None\<rparr>
        (reply JNull) (AI21_initializers\<lparr>AI21.stop := Some [''END'']\<rparr>)
       = (Inl (Error no_api_key_message None), AI21_initializers\<lparr>AI21.stop := Some [''END'']\<rparr>, [])"
    by (rule call_no_key) (simp add: AI21_initializers_def falsy_string_def)
  show "Error no_api_key_message None \<noteq> Error stop_conflict_message None"
    by (simp add: no_api_key_message_def stop_conflict_message_def)
qed

text \<open>
  C2, as the code has it. On an instance that holds a non-empty key, a call whose static
  stop list and call-time stop list are both present and both non-empty fails with the
  conflict error, and no request is sent.
\<close>

theorem stop_conflict_rejected:
  assumes "AI21.ai21ApiKey this = Some k" and "k \<noteq> []"
    and "AI21.stop this = Some a" and "ParsedCallOptions.stop options = Some b"
    and "a \<noteq> []" and "b \<noteq> []"
  shows "AI21_call prompt' options fetch this
           = (Inl (Error stop_conflict_message None), this, [])"
proof (rule call_conflict)
  show "\<not> falsy_string (AI21.ai21ApiKey this)"
    using assms(1,2) by (simp add: falsy_string_def)
  show "stop_conflict (AI21.stop this) (ParsedCallOptions.stop options)"
    using assms(3-6) by (simp add: stop_conflict_def)
qed

theorem stop_conflict_rejected_witness:
  "AI21_call ''Tell me a joke.''
     \<lparr>ParsedCallOptions.stop = Some [''STOP''], ParsedCallOptions.signal = None\<rparr>
     (reply JNull)
     (AI21_initializers\<lparr>AI21.ai21ApiKey := Some ''key'', AI21.stop := Some [''END'']\<rparr>)
   = (Inl (Error stop_conflict_message None),
      AI21_initializers\<lparr>AI21.ai21ApiKey := Some ''key'', AI21.stop := Some [''END'']\<rparr>, [])"
  by (rule stop_conflict_rejected [where k = "''key''" and a = "[''END'']" and b = "[''STOP'']"])
     (simp_all add: AI21_initializers_def)

section \<open>The merged stop list\<close>

text \<open>
  C3. The merge is \<^verbatim>\<open>this.stop ?? stop ?? []\<close>. An absent static list gives way to the
  call-time list (\<open>merged_stop_static_absent\<close>), but an empty static list is not
  nullish and is kept (\<open>merged_stop_static_present\<close>): constructed with
  \<^verbatim>\<open>stop: []\<close> and called with \<^verbatim>\<open>stop: ["STOP"]\<close>, the adapter passes the conflict
  check and sends \<^verbatim>\<open>stopSequences: []\<close>.
\<close>

theorem empty_static_stop_drops_call_stop:
  "AI21_constructor
     (Some (AI21Input_empty\<lparr>AI21Input.ai21ApiKey := Some ''key'', AI21Input.stop := Some []\<rparr>))
     None
     = (Inr (AI21_initializers\<lparr>AI21.ai21ApiKey := Some ''key'', AI21.stop := Some []\<rparr>), 0)
   \<and> map (\<lambda>request. AI21Body.stopSequences (Request.body request))
        (snd (snd (AI21_call ''Tell me a joke.''
           \<lparr>ParsedCallOptions.stop = Some [''STOP''], ParsedCallOptions.signal = None\<rparr>
           (reply JNull)
           (AI21_initializers\<lparr>AI21.ai21ApiKey := Some ''key'', AI21.stop := Some []\<rparr>))))
       = [[]]"
proof (intro conjI)
  show "AI21_constructor
     (Some (AI21Input_empty\<lparr>AI21Input.ai21ApiKey := Some ''key'', AI21Input.stop := Some []\<rparr>))
     None
     = (Inr (AI21_initializers\<lparr>AI21.ai21ApiKey := Some ''key'', AI21.stop := Some []\<rparr>), 0)"
    unfolding AI21_constructor_eq
    by (simp add: AI21Input_empty_def AI21_initializers_def optional_chain_def coalesce_def
        coalesce_opt_def)
  have key: "\<not> falsy_string (AI21.ai21ApiKey
      (AI21_initializers\<lparr>AI21.ai21ApiKey := Some ''key'', AI21.stop := Some []\<rparr>))"
    by (simp add: falsy_string_def)
  have noc: "\<not> stop_conflict
      (AI21.stop (AI21_initializers\<lparr>AI21.ai21ApiKey := Some ''key'', AI21.stop := Some []\<rparr>))
      (ParsedCallOptions.stop
        \<lparr>ParsedCallOptions.stop = Some [''STOP''], ParsedCallOptions.signal = None\<rparr>)"
    by (simp add: stop_conflict_def)
  show "map (\<lambda>request. AI21Body.stopSequences (Request.body request))
        (snd (snd (AI21_call ''Tell me a joke.''
           \<lparr>ParsedCallOptions.stop = Some [''STOP''], ParsedCallOptions.signal = None\<rparr>
           (reply JNull)
           (AI21_initializers\<lparr>AI21.ai21ApiKey := Some ''key'', AI21.stop := Some []\<rparr>))))
       = [[]]"
    unfolding call_sent [OF key noc]
    by (simp add: merged_stop_static_present)
qed

section \<open>The request URL\<close>

text \<open>
  C4. Without a configured base URL the base is the experimental endpoint exactly for
  the model \<^verbatim>\<open>j1-grande-instruct\<close> (\<open>select_baseUrl_default\<close>). A configured base URL
  only steers the choice between the two fixed endpoints
  (\<open>select_baseUrl_configured\<close>) and never appears in the URL: constructed with
  \<^verbatim>\<open>baseUrl: "https://example.com"\<close>, the adapter posts to the experimental AI21
  endpoint.
\<close>

theorem configured_baseUrl_not_used:
  "AI21_constructor
     (Some (AI21Input_empty\<lparr>AI21Input.ai21ApiKey := Some ''key'',
                              AI21Input.baseUrl := Some ''https://example.com''\<rparr>))
     None
     = (Inr (AI21_initializers\<lparr>AI21.ai21ApiKey := Some ''key'',
                                 AI21.baseUrl := Some ''https://example.com''\<rparr>), 0)
   \<and> map Request.url
        (snd (snd (AI21_call ''Tell me a joke.''
           \<lparr>ParsedCallOptions.stop = None, ParsedCallOptions.signal = None\<rparr>
           (reply JNull)
           (AI21_initializers\<lparr>AI21.ai21ApiKey := Some ''key'',
                                 AI21.baseUrl := Some ''https://example.com''\<rparr>))))
       = [''https://api.ai21.com/studio/v1/experimental/j2-jumbo-instruct/complete'']"
proof (intro conjI)
  show "AI21_constructor
     (Some (AI21Input_empty\<lparr>AI21Input.ai21ApiKey := Some ''key'',
                              AI21Input.baseUrl := Some ''https://example.com''\<rparr>))
     None
     = (Inr (AI21_initializers\<lparr>AI21.ai21ApiKey := Some ''key'',
                                 AI21.baseUrl := Some ''https://example.com''\<rparr>), 0)"
    unfolding AI21_constructor_eq
    by (simp add: AI21Input_empty_def AI21_initializers_def optional_chain_def coalesce_def
        coalesce_opt_def)
  have key: "\<not> falsy_string (AI21.ai21ApiKey
      (AI21_initializers\<lparr>AI21.ai21ApiKey := Some ''key'',
                            AI21.baseUrl := Some ''https://example.com''\<rparr>))"
    by (simp add: falsy_string_def)
  have noc: "\<not> stop_conflict
      (AI21.stop (AI21_initializers\<lparr>AI21.ai21ApiKey := Some ''key'',
                                       AI21.baseUrl := Some ''https://example.com''\<rparr>))
      (ParsedCallOptions.stop
        \<lparr>ParsedCallOptions.stop = None, ParsedCallOptions.signal = None\<rparr>)"
    by (simp add: stop_conflict_def AI21_initializers_def)
  show "map Request.url
        (snd (snd (AI21_call ''Tell me a joke.''
           \<lparr>ParsedCallOptions.stop = None, ParsedCallOptions.signal = None\<rparr>
           (reply JNull)
           (AI21_initializers\<lparr>AI21.ai21ApiKey := Some ''key'',
                                 AI21.baseUrl := Some ''https://example.com''\<rparr>))))
       = [''https://api.ai21.com/studio/v1/experimental/j2-jumbo-instruct/complete'']"
    unfolding call_sent [OF key noc]
    by (simp add: request_url select_baseUrl_def AI21_initializers_def)
qed

section \<open>Failing status codes\<close>

text \<open>
  C5. When the response to the call's request is not \<^verbatim>\<open>ok\<close>, the call fails with an
  error whose message ends with the decimal status code (so contains it) and whose
  \<^verbatim>\<open>response\<close> property is that response.
\<close>

theorem http_status_error:
  assumes "snd (snd (AI21_call prompt' options fetch this)) = [request]"
    and "fetch request = Resolved resp"
    and "\<not> ok resp"
  shows "\<exists>e. fst (AI21_call prompt' options fetch this) = Inl e
           \<and> message e = ''AI21 call failed with status code '' @ string_of_nat (status resp)
           \<and> sublist (string_of_nat (status resp)) (message e)
           \<and> response e = Some resp"
proof -
  have "fst (AI21_call prompt' options fetch this) =
          Inl (Error (''AI21 call failed with status code '' @ string_of_nat (status resp))
                 (Some resp))"
    using assms(2,3) by (simp add: call_one_request(2) [OF assms(1)] fetch_json_def)
  moreover have "sublist (string_of_nat (status resp))
      (''AI21 call failed with status code '' @ string_of_nat (status resp))"
    by (rule sublist_append_leftI)
  ultimately show ?thesis by simp
qed

theorem http_status_error_witness:
  "\<exists>e. fst (AI21_call ''Tell me a joke.''
             \<lparr>ParsedCallOptions.stop = None, ParsedCallOptions.signal = None\<rparr>
             (reply_status 500) (AI21_initializers\<lparr>AI21.ai21ApiKey := Some ''key''\<rparr>)) = Inl e
       \<and> message e = ''AI21 call failed with status code 500''
       \<and> sublist ''500'' (message e)
       \<and> response e = Some \<lparr>ok = False, status = 500, json = None\<rparr>"
proof -
  let ?inst = "AI21_initializers\<lparr>AI21.ai21ApiKey := Some ''key''\<rparr>"
  let ?options = "\<lparr>ParsedCallOptions.stop = None, ParsedCallOptions.signal = None\<rparr>"
  let ?request = "build_request ?inst ''Tell me a joke.'' ?options"
  have key: "\<not> falsy_string (AI21.ai21ApiKey ?inst)"
    by (simp add: falsy_string_def)
  have noc: "\<not> stop_conflict (AI21.stop ?inst) (ParsedCallOptions.stop ?options)"
    by (simp add: stop_conflict_def AI21_initializers_def)
  have sent: "snd (snd (AI21_call ''Tell me a joke.'' ?options (reply_status 500) ?inst))
                = [?request]"
    unfolding call_sent [OF key noc] by simp
  have answered: "reply_status 500 ?request = Resolved \<lparr>ok = False, status = 500, json = None\<rparr>"
    by (simp add: reply_status_def)
  have bad: "\<not> ok \<lparr>ok = False, status = 500, json = None\<rparr>"
    by simp
  show ?thesis
    using http_status_error [OF sent answered bad] by (simp add: string_of_nat_500)
qed

section \<open>Responses without a completion\<close>

text \<open>
  A first element that is \<^verbatim>\<open>null\<close> has no \<^verbatim>\<open>data\<close> field, but line 192 reads the
  field of it all the same: the call fails with the engine's \<^verbatim>\<open>TypeError\<close>, not with
  the no-completions error.
\<close>

theorem null_first_completion_is_type_error:
  "fst (AI21_call ''Tell me a joke.''
          \<lparr>ParsedCallOptions.stop = None, ParsedCallOptions.signal = None\<rparr>
          (reply (JObj [(''completions'', JArr [JNull])]))
          (AI21_initializers\<lparr>AI21.ai21ApiKey := Some ''key''\<rparr>))
     = Inl TypeError
   \<and> TypeError \<noteq> Error no_completions_message None"
  by (simp add: keyed_call_result read_completion_def)

text \<open>
  C6, as the code has it. The response is successful and its body is a value whose
  \<^verbatim>\<open>completions\<close> property can be read (any value but \<^verbatim>\<open>null\<close>). When that
  property is absent, or is the empty array, or is an array whose first element is a
  value other than \<^verbatim>\<open>null\<close> whose \<^verbatim>\<open>data\<close> property is absent or falsy
  (\<^verbatim>\<open>null\<close>, \<^verbatim>\<open>0\<close>, the empty string, \<^verbatim>\<open>false\<close>), the call fails with the
  no-completions error; it does not return an empty string.
\<close>

theorem empty_result:
  assumes "snd (snd (AI21_call prompt' options fetch this)) = [request]"
    and "fetch request = Resolved resp"
    and "ok resp"
    and "json resp = Some responseData"
    and "get_property responseData ''completions'' = Inr completions"
    and "completions = JUndefined
         \<or> completions = JArr []
         \<or> (\<exists>first rest d. completions = JArr (first # rest)
               \<and> get_property first ''data'' = Inr d \<and> \<not> truthy d)"
  shows "fst (AI21_call prompt' options fetch this) = Inl (Error no_completions_message None)"
proof -
  have "fst (AI21_call prompt' options fetch this) = read_completion responseData"
    using assms(2-4) by (simp add: call_one_request(2) [OF assms(1)] fetch_json_def)
  moreover have "read_completion responseData = Inl (Error no_completions_message None)"
    using assms(5,6)
    by (auto simp: read_completion_absent read_completion_empty intro: read_completion_no_data)
  ultimately show ?thesis by simp
qed

theorem empty_result_witness:
  "fst (AI21_call ''Tell me a joke.''
          \<lparr>ParsedCallOptions.stop = None, ParsedCallOptions.signal = None\<rparr>
          (reply (JObj [(''id'', JStr ''1'')]))
          (AI21_initializers\<lparr>AI21.ai21ApiKey := Some ''key''\<rparr>))
     = Inl (Error no_completions_message None)
   \<and> fst (AI21_call ''Tell me a joke.''
          \<lparr>ParsedCallOptions.stop = None, ParsedCallOptions.signal = None\<rparr>
          (reply (JObj [(''completions'', JArr [])]))
          (AI21_initializers\<lparr>AI21.ai21ApiKey := Some ''key''\<rparr>))
     = Inl (Error no_completions_message None)
   \<and> fst (AI21_call ''Tell me a joke.''
          \<lparr>ParsedCallOptions.stop = None, ParsedCallOptions.signal = None\<rparr>
          (reply (JObj [(''completions'', JArr [JObj [(''finishReason'', JNull)]])]))
          (AI21_initializers\<lparr>AI21.ai21ApiKey := Some ''key''\<rparr>))
     = Inl (Error no_completions_message None)
   \<and> fst (AI21_call ''Tell me a joke.''
          \<lparr>ParsedCallOptions.stop = None, ParsedCallOptions.signal = None\<rparr>
          (reply (JObj [(''completions'', JArr [JObj [(''data'', JNull)]])]))
          (AI21_initializers\<lparr>AI21.ai21ApiKey := Some ''key''\<rparr>))
     = Inl (Error no_completions_message None)"
proof (intro conjI)
  show "fst (AI21_call ''Tell me a joke.''
          \<lparr>ParsedCallOptions.stop = None, ParsedCallOptions.signal = None\<rparr>
          (reply (JObj [(''id'', JStr ''1'')]))
          (AI21_initializers\<lparr>AI21.ai21ApiKey := Some ''key''\<rparr>))
     = Inl (Error no_completions_message None)"
    by (rule empty_result [OF keyed_call_sent,
          where responseData = "JObj [(''id'', JStr ''1'')]" and completions = JUndefined
          and resp = "\<lparr>ok = True, status = 200, json = Some (JObj [(''id'', JStr ''1'')])\<rparr>"])
       (simp_all add: reply_def)
  show "fst (AI21_call ''Tell me a joke.''
          \<lparr>ParsedCallOptions.stop = None, ParsedCallOptions.signal = None\<rparr>
          (reply (JObj [(''completions'', JArr [])]))
          (AI21_initializers\<lparr>AI21.ai21ApiKey := Some ''key''\<rparr>))
     = Inl (Error no_completions_message None)"
    by (rule empty_result [OF keyed_call_sent,
          where responseData = "JObj [(''completions'', JArr [])]" and completions = "JArr []"
          and resp = "\<lparr>ok = True, status = 200,
                       json = Some (JObj [(''completions'', JArr [])])\<rparr>"])
       (simp_all add: reply_def)
  show "fst (AI21_call ''Tell me a joke.''
          \<lparr>ParsedCallOptions.stop = None, ParsedCallOptions.signal = None\<rparr>
          (reply (JObj [(''completions'', JArr [JObj [(''finishReason'', JNull)]])]))
          (AI21_initializers\<lparr>AI21.ai21ApiKey := Some ''key''\<rparr>))
     = Inl (Error no_completions_message None)"
    by (rule empty_result [OF keyed_call_sent,
          where responseData = "JObj [(''completions'', JArr [JObj [(''finishReason'', JNull)]])]"
          and completions = "JArr [JObj [(''finishReason'', JNull)]]"
          and resp = "\<lparr>ok = True, status = 200,
                       json = Some (JObj [(''completions'',
                                          JArr [JObj [(''finishReason'', JNull)]])])\<rparr>"])
       (simp_all add: reply_def)
  show "fst (AI21_call ''Tell me a joke.''
          \<lparr>ParsedCallOptions.stop = None, ParsedCallOptions.signal = None\<rparr>
          (reply (JObj [(''completions'', JArr [JObj [(''data'', JNull)]])]))
          (AI21_initializers\<lparr>AI21.ai21ApiKey := Some ''key''\<rparr>))
     = Inl (Error no_completions_message None)"
    by (rule empty_result [OF keyed_call_sent,
          where responseData = "JObj [(''completions'', JArr [JObj [(''data'', JNull)]])]"
          and completions = "JArr [JObj [(''data'', JNull)]]"
          and resp = "\<lparr>ok = True, status = 200,
                       json = Some (JObj [(''completions'',
                                          JArr [JObj [(''data'', JNull)]])])\<rparr>"])
       (simp_all add: reply_def)
qed

section \<open>Completions without text\<close>

text \<open>
  A first element may have a \<^verbatim>\<open>data\<close> field and no \<^verbatim>\<open>text\<close> field and still be
  refused: line 192 tests \<^verbatim>\<open>!data\<close>, so a \<^verbatim>\<open>data\<close> field holding \<^verbatim>\<open>null\<close> or
  \<^verbatim>\<open>0\<close> ends in the no-completions error, not in the empty string.
\<close>

theorem falsy_data_is_not_empty_string:
  "fst (AI21_call ''Tell me a joke.''
          \<lparr>ParsedCallOptions.stop = None, ParsedCallOptions.signal = None\<rparr>
          (reply (JObj [(''completions'', JArr [JObj [(''data'', JNull)]])]))
          (AI21_initializers\<lparr>AI21.ai21ApiKey := Some ''key''\<rparr>))
     = Inl (Error no_completions_message None)
   \<and> fst (AI21_call ''Tell me a joke.''
          \<lparr>ParsedCallOptions.stop = None, ParsedCallOptions.signal = None\<rparr>
          (reply (JObj [(''completions'', JArr [JObj [(''data'', JNum 0)]])]))
          (AI21_initializers\<lparr>AI21.ai21ApiKey := Some ''key''\<rparr>))
     = Inl (Error no_completions_message None)"
  by (simp add: keyed_call_result read_completion_def)

text \<open>
  C7, as the code has it. When the first element of \<^verbatim>\<open>completions\<close> has a \<^verbatim>\<open>data\<close>
  field holding a truthy value (an object, for one) on which \<^verbatim>\<open>text\<close> is absent, the
  call returns the empty string.
\<close>

theorem absent_text_is_empty_string:
  assumes "snd (snd (AI21_call prompt' options fetch this)) = [request]"
    and "fetch request = Resolved resp"
    and "ok resp"
    and "json resp = Some responseData"
    and "get_property responseData ''completions'' = Inr (JArr (first # rest))"
    and "get_property first ''data'' = Inr d"
    and "truthy d"
    and "get_property d ''text'' = Inr JUndefined"
  shows "fst (AI21_call prompt' options fetch this) = Inr (JStr [])"
proof -
  have "fst (AI21_call prompt' options fetch this) = read_completion responseData"
    using assms(2-4) by (simp add: call_one_request(2) [OF assms(1)] fetch_json_def)
  moreover have "read_completion responseData
                   = Inr (if nullish JUndefined then JStr [] else JUndefined)"
    by (rule read_completion_text [OF assms(5-8)])
  ultimately show ?thesis by simp
qed

theorem absent_text_is_empty_string_witness:
  "fst (AI21_call ''Tell me a joke.''
          \<lparr>ParsedCallOptions.stop = None, ParsedCallOptions.signal = None\<rparr>
          (reply (JObj [(''completions'', JArr [JObj [(''data'', JObj [(''tokens'', JArr [])])]])]))
          (AI21_initializers\<lparr>AI21.ai21ApiKey := Some ''key''\<rparr>))
     = Inr (JStr [])"
  by (rule absent_text_is_empty_string [OF keyed_call_sent,
        where responseData =
            "JObj [(''completions'', JArr [JObj [(''data'', JObj [(''tokens'', JArr [])])]])]"
          and first = "JObj [(''data'', JObj [(''tokens'', JArr [])])]" and rest = "[]"
          and d = "JObj [(''tokens'', JArr [])]"
          and resp = "\<lparr>ok = True, status = 200,
                       json = Some (JObj [(''completions'',
                         JArr [JObj [(''data'', JObj [(''tokens'', JArr [])])]])])\<rparr>"])
     (simp_all add: reply_def)

section \<open>The penalty descriptor\<close>

text \<open>
  C8. The default penalty descriptor is scale 0 with all five flags set, and an instance
  constructed without penalty fields (or without any fields at all) holds that record
  as its presence, count and frequency penalty.
\<close>

theorem default_penalty_data:
  "getDefaultAI21PenaltyData =
     \<lparr>scale = 0, applyToWhitespaces = True, applyToPunctuations = True,
      applyToNumbers = True, applyToStopwords = True, applyToEmojis = True\<rparr>
   \<and> (optional_chain flds AI21Input.presencePenalty = None
      \<and> optional_chain flds AI21Input.countPenalty = None
      \<and> optional_chain flds AI21Input.frequencyPenalty = None
      \<longrightarrow> (\<exists>this. AI21_constructor flds env = (Inr this, 0)
            \<and> AI21.presencePenalty this = getDefaultAI21PenaltyData
            \<and> AI21.countPenalty this = getDefaultAI21PenaltyData
            \<and> AI21.frequencyPenalty this = getDefaultAI21PenaltyData))"
proof -
  have "getDefaultAI21PenaltyData =
     \<lparr>scale = 0, applyToWhitespaces = True, applyToPunctuations = True,
      applyToNumbers = True, applyToStopwords = True, applyToEmojis = True\<rparr>"
    by (simp add: getDefaultAI21PenaltyData_def)
  moreover have "optional_chain flds AI21Input.presencePenalty = None
      \<and> optional_chain flds AI21Input.countPenalty = None
      \<and> optional_chain flds AI21Input.frequencyPenalty = None
      \<longrightarrow> (\<exists>this. AI21_constructor flds env = (Inr this, 0)
            \<and> AI21.presencePenalty this = getDefaultAI21PenaltyData
            \<and> AI21.countPenalty this = getDefaultAI21PenaltyData
            \<and> AI21.frequencyPenalty this = getDefaultAI21PenaltyData)"
    unfolding AI21_constructor_eq by (simp add: coalesce_def)
  ultimately show ?thesis by blast
qed

theorem default_penalty_data_witness:
  "optional_chain None AI21Input.presencePenalty = None
   \<and> optional_chain None AI21Input.countPenalty = None
   \<and> optional_chain None AI21Input.frequencyPenalty = None
   \<and> (\<exists>this. AI21_constructor None None = (Inr this, 0)
        \<and> AI21.presencePenalty this = getDefaultAI21PenaltyData
        \<and> AI21.countPenalty this = getDefaultAI21PenaltyData
        \<and> AI21.frequencyPenalty this = getDefaultAI21PenaltyData)"
  using default_penalty_data [of None None] by (simp add: optional_chain_def)

section \<open>The configuration is read-only\<close>

text \<open>
  C9. Whatever a call settles with, the instance it leaves behind is the instance it was
  given: every configuration field is unchanged.
\<close>

theorem call_leaves_configuration:
  "fst (snd (AI21_call prompt' options fetch this)) = this"
  by (simp add: AI21_call_def Let_def split: sum.splits)

theorem call_leaves_configuration_witness:
  "fst (snd (AI21_call ''Tell me a joke.''
       \<lparr>ParsedCallOptions.stop = Some [''STOP''], ParsedCallOptions.signal = None\<rparr>
       (reply_status 500) (AI21_initializers\<lparr>AI21.ai21ApiKey := Some ''key''\<rparr>)))
   = AI21_initializers\<lparr>AI21.ai21ApiKey := Some ''key''\<rparr>"
  by (rule call_leaves_configuration)

section \<open>Moderation verdicts\<close>

text \<open>
  C10. \<^verbatim>\<open>_moderate\<close> returns the text unchanged when the verdict is not flagged. When it
  is flagged, it throws if \<^verbatim>\<open>throwError\<close> is set and returns the fixed policy string
  otherwise. The constructor sets \<^verbatim>\<open>throwError\<close> to the value given, and to false when
  none is given.
\<close>

theorem moderate_verdict:
  "(\<not> flagged results \<longrightarrow> moderate this text' results = Inr text')
   \<and> (flagged results \<and> throwError this \<longrightarrow>
        moderate this text' results = Inl (Error errorStr None))
   \<and> (flagged results \<and> \<not> throwError this \<longrightarrow> moderate this text' results = Inr errorStr)
   \<and> (fst (OpenAIModerationChain_constructor flds env) = Inr chain \<longrightarrow>
        throwError chain
          = coalesce (optional_chain flds OpenAIModerationChainInput.throwError) False)"
proof (intro conjI impI)
  assume "fst (OpenAIModerationChain_constructor flds env) = Inr chain"
  then show "throwError chain
          = coalesce (optional_chain flds OpenAIModerationChainInput.throwError) False"
    by (auto simp: OpenAIModerationChain_constructor_def Let_def split: if_splits)
qed (simp_all add: moderate_def)

theorem moderate_verdict_witness:
  "moderate \<lparr>inputKey = ''input'', outputKey = ''output'', openAIApiKey = Some ''key'',
              openAIOrganization = None, clientConfig = Map.empty, throwError = True\<rparr>
     ''hello'' \<lparr>flagged = False, categories = [], category_scores = []\<rparr> = Inr ''hello''
   \<and> moderate \<lparr>inputKey = ''input'', outputKey = ''output'', openAIApiKey = Some ''key'',
              openAIOrganization = None, clientConfig = Map.empty, throwError = True\<rparr>
     ''hello'' \<lparr>flagged = True, categories = [], category_scores = []\<rparr>
       = Inl (Error errorStr None)
   \<and> moderate \<lparr>inputKey = ''input'', outputKey = ''output'', openAIApiKey = Some ''key'',
              openAIOrganization = None, clientConfig = Map.empty, throwError = False\<rparr>
     ''hello'' \<lparr>flagged = True, categories = [], category_scores = []\<rparr> = Inr errorStr
   \<and> (\<exists>chain. fst (OpenAIModerationChain_constructor None (Some ''key'')) = Inr chain
         \<and> \<not> throwError chain
         \<and> moderate chain ''hello'' \<lparr>flagged = True, categories = [], category_scores = []\<rparr>
             = Inr errorStr)"
proof -
  let ?bad = "\<lparr>flagged = True, categories = [], category_scores = []\<rparr>"
  obtain chain where c: "fst (OpenAIModerationChain_constructor None (Some ''key'')) = Inr chain"
    by (simp add: OpenAIModerationChain_constructor_def Let_def coalesce_opt_def
        optional_chain_def falsy_string_def)
  have d: "\<not> throwError chain"
    using moderate_verdict [where flds = None and env = "Some ''key''" and chain = chain] c
    by (simp add: optional_chain_def coalesce_def)
  have "moderate chain ''hello'' ?bad = Inr errorStr"
    using moderate_verdict [where results = ?bad and this = chain and text' = "''hello''"] d
    by simp
  with c d have last: "\<exists>chain. fst (OpenAIModerationChain_constructor None (Some ''key'')) = Inr chain
         \<and> \<not> throwError chain \<and> moderate chain ''hello'' ?bad = Inr errorStr"
    by blast
  show ?thesis
    using moderate_verdict [where results = "\<lparr>flagged = False, categories = [], category_scores = []\<rparr>"
        and this = "\<lparr>inputKey = ''input'', outputKey = ''output'', openAIApiKey = Some ''key'',
              openAIOrganization = None, clientConfig = Map.empty, throwError = True\<rparr>"
        and text' = "''hello''"]
      moderate_verdict [where results = ?bad
        and this = "\<lparr>inputKey = ''input'', outputKey = ''output'', openAIApiKey = Some ''key'',
              openAIOrganization = None, clientConfig = Map.empty, throwError = True\<rparr>"
        and text' = "''hello''"]
      moderate_verdict [where results = ?bad
        and this = "\<lparr>inputKey = ''input'', outputKey = ''output'', openAIApiKey = Some ''key'',
              openAIOrganization = None, clientConfig = Map.empty, throwError = False\<rparr>"
        and text' = "''hello''"]
      last
    by simp
qed

end
